theory Spec2Isabelle
  imports Main
begin

section \<open>The Altman rating window (ui/main_window.py)\<close>

text \<open>
  The class \<open>MainWindow\<close> is a Qt window: its methods read and write the widgets created by
  the generated layout, a key-value settings store, and a table of committed ratings.
  Each method becomes a state transformer over a record of those objects.  A Python
  exception is a value: a transformer returns \<open>Inl e\<close> together with the state reached when
  the exception was raised (mutations done before a raise are not undone).
\<close>

subsection \<open>Values\<close>

text \<open>
  A \<open>QByteArray\<close> is opaque to the window: it is either empty, or what \<open>saveGeometry\<close>
  produced (the size it encodes), or what \<open>saveState\<close> produced.
\<close>

datatype qbytearray = QByteArray_empty | Geometry_blob "int \<times> int" | State_blob "nat list"

datatype qvariant = QInt int | QBytes qbytearray

datatype qdate = QDate int int int

datatype qtime = QTime int int int

datatype slider_name =
  Altmans_sleep | Altmans_speech | Altmans_activity | Altmans_cheer | Altmans_confidence

datatype action = ActionShowAltmanExam | ActionShowAltmanTable | ActionCommit | ActionDelete

datatype signal = CurrentChanged | Triggered action | ValueChanged slider_name

text \<open>
  The calls that leave the window and may raise: connecting a signal, reading and writing
  the settings store, and the database collaborators.  Reading or setting a live widget
  is total.
\<close>

datatype ext_op =
  Connect signal
  | Settings_value string
  | Settings_setValue string
  | DataManager_init
  | Create_and_set_model string
  | Insert_into_altman_table
  | Delete_rows string string

datatype error = Failure ext_op | TypeError string

text \<open>
  The callables this file connects to signals, one datatype for each signal signature.
  A slot holds what its closure captured (a page number, the field mapping, two names)
  and nothing of the widgets: it runs against the window as it is when the signal fires.
\<close>

datatype page_slot = Slot_on_page_changed

datatype value_slot = Slot_update_altmans_summary

datatype action_slot =
  Slot_change_stack_page int
  | Slot_add_altmans_data "(string \<times> string) list"
  | Slot_delete_selected_rows string string
  | Slot_switchone
  | Slot_switchtwo

datatype field_value = FDate qdate | FTime qtime | FInt int

subsection \<open>Widgets and the window\<close>

text \<open>
  A slider and the summary field are ranged integer widgets: \<open>setValue\<close> bounds its argument
  by the widget's range.  The ranges the generated layout gives them are not in this file,
  so they are whatever the initial record holds.
\<close>

record ranged =
  minimum :: int
  maximum :: int
  wvalue :: int

record slider = ranged +
  valueChanged :: "value_slot list"

record summary_field = ranged +
  enabled :: bool

record window =
  slider :: "slider_name \<Rightarrow> slider"
  altmans_summary :: summary_field
  altman_date :: qdate
  altman_time :: qtime
  stack_index :: int
  stack_count :: int
  onepage :: int
  twopage :: int
  currentChanged :: "page_slot list"
  triggered :: "action \<Rightarrow> action_slot list"
  win_size :: "int \<times> int"
  fixed_size :: "(int \<times> int) option"
  frame_state :: "nat list"
  settings :: "string \<rightharpoonup> qvariant"
  altmans_model :: "string option"
  altman_table :: "(string \<times> field_value) list list"
  selected_rows :: "nat list"
  current_date :: qdate
  current_time :: qtime
  log :: "(string \<times> error) list"
  calls :: "ext_op list"
  faults :: "nat \<Rightarrow> bool"

text \<open>
  \<open>calls\<close> is the trace of external calls made so far, \<open>faults n\<close> tells whether the
  \<open>n\<close>-th external call raises, \<open>log\<close> holds what was given to \<open>logger.error\<close> (the
  message's fixed text and the exception).
  \<open>stack_index\<close> and \<open>stack_count\<close> are the stacked widget's current index and number
  of pages, \<open>onepage\<close> and \<open>twopage\<close> the indices of the two pages.
\<close>

subsection \<open>Statements\<close>

type_synonym 'a stmt = "window \<Rightarrow> (error + 'a) \<times> window"

definition return_m :: "'a \<Rightarrow> 'a stmt" where
  "return_m x w = (Inr x, w)"

definition raise_m :: "error \<Rightarrow> 'a stmt" where
  "raise_m e w = (Inl e, w)"

definition bind_m :: "'a stmt \<Rightarrow> ('a \<Rightarrow> 'b stmt) \<Rightarrow> 'b stmt" where
  "bind_m f g w = (case f w of (Inl e, w') \<Rightarrow> (Inl e, w') | (Inr x, w') \<Rightarrow> g x w')"

definition then_m :: "unit stmt \<Rightarrow> 'b stmt \<Rightarrow> 'b stmt" where
  "then_m f g = bind_m f (\<lambda>_. g)"

fun block :: "unit stmt list \<Rightarrow> unit stmt" where
  "block [] = return_m ()"
| "block (s # ss) = then_m s (block ss)"

definition try_except :: "unit stmt \<Rightarrow> (error \<Rightarrow> unit stmt) \<Rightarrow> unit stmt" where
  "try_except f h w = (case f w of (Inl e, w') \<Rightarrow> h e w' | (Inr x, w') \<Rightarrow> (Inr x, w'))"

definition modify :: "(window \<Rightarrow> window) \<Rightarrow> unit stmt" where
  "modify f w = (Inr (), f w)"

definition call :: "ext_op \<Rightarrow> unit stmt" where
  "call opn w =
     (let w' = w\<lparr>calls := calls w @ [opn]\<rparr>
      in if faults w (length (calls w)) then (Inl (Failure opn), w') else (Inr (), w'))"

definition logger_error :: "string \<Rightarrow> error \<Rightarrow> unit stmt" where
  "logger_error msg e = modify (\<lambda>w. w\<lparr>log := log w @ [(msg, e)]\<rparr>)"

subsection \<open>Qt widget operations\<close>

definition qBound :: "int \<Rightarrow> int \<Rightarrow> int \<Rightarrow> int" where
  "qBound lo v hi = max lo (min hi v)"

definition summary_setValue :: "int \<Rightarrow> unit stmt" where
  "summary_setValue v =
     modify (\<lambda>w. w\<lparr>altmans_summary :=
       (altmans_summary w)\<lparr>wvalue :=
          qBound (minimum (altmans_summary w)) v (maximum (altmans_summary w))\<rparr>\<rparr>)"

definition summary_setEnabled :: "bool \<Rightarrow> unit stmt" where
  "summary_setEnabled b = modify (\<lambda>w. w\<lparr>altmans_summary := (altmans_summary w)\<lparr>enabled := b\<rparr>\<rparr>)"

subsection \<open>update_altmans_summary (lines 224 to 241)\<close>

definition sliders :: "slider_name list" where
  "sliders = [Altmans_sleep, Altmans_speech, Altmans_activity, Altmans_cheer, Altmans_confidence]"

definition update_altmans_summary :: "unit stmt" where
  "update_altmans_summary =
     try_except
       (\<lambda>w. let values = [wvalue (slider w s). s \<leftarrow> sliders, wvalue (slider w s) > 0];
                altmans_sum = sum_list values
            in summary_setValue altmans_sum w)
       (\<lambda>e. logger_error [] e)"

subsection \<open>The settings store (QSettings)\<close>

definition settings_setValue :: "string \<Rightarrow> qvariant \<Rightarrow> unit stmt" where
  "settings_setValue k v =
     then_m (call (Settings_setValue k)) (modify (\<lambda>w. w\<lparr>settings := (settings w)(k \<mapsto> v)\<rparr>))"

definition settings_value :: "string \<Rightarrow> qvariant \<Rightarrow> qvariant stmt" where
  "settings_value k dflt =
     then_m (call (Settings_value k))
       (\<lambda>w. (Inr (case settings w k of None \<Rightarrow> dflt | Some v \<Rightarrow> v), w))"

definition as_int :: "qvariant \<Rightarrow> int stmt" where
  "as_int v = (case v of QInt i \<Rightarrow> return_m i | QBytes b \<Rightarrow> raise_m (TypeError ''int''))"

definition as_bytes :: "qvariant \<Rightarrow> qbytearray stmt" where
  "as_bytes v = (case v of QBytes b \<Rightarrow> return_m b | QInt i \<Rightarrow> raise_m (TypeError ''QByteArray''))"

subsection \<open>Signals\<close>

definition connect_currentChanged :: "page_slot \<Rightarrow> unit stmt" where
  "connect_currentChanged h =
     then_m (call (Connect CurrentChanged))
       (modify (\<lambda>w. w\<lparr>currentChanged := currentChanged w @ [h]\<rparr>))"

definition connect_triggered :: "action \<Rightarrow> action_slot \<Rightarrow> unit stmt" where
  "connect_triggered a h =
     then_m (call (Connect (Triggered a)))
       (modify (\<lambda>w. w\<lparr>triggered := (triggered w)(a := triggered w a @ [h])\<rparr>))"

definition connect_valueChanged :: "slider_name \<Rightarrow> value_slot \<Rightarrow> unit stmt" where
  "connect_valueChanged s h =
     then_m (call (Connect (ValueChanged s)))
       (modify (\<lambda>w. w\<lparr>slider :=
          (slider w)(s := (slider w s)\<lparr>valueChanged := valueChanged (slider w s) @ [h]\<rparr>)\<rparr>))"

subsection \<open>Sliders\<close>

definition run_value_slot :: "value_slot \<Rightarrow> unit stmt" where
  "run_value_slot h = (case h of Slot_update_altmans_summary \<Rightarrow> update_altmans_summary)"

text \<open>
  \<open>QAbstractSlider::setValue\<close> bounds the value by the range, does nothing when the bounded
  value is the current one, and otherwise stores it and emits \<open>valueChanged\<close>: the connected
  slots run at once, in connection order.  \<open>setRange\<close> stores the range and sets the current
  value again, so that it is bounded by the new range.
\<close>

definition slider_setValue :: "slider_name \<Rightarrow> int \<Rightarrow> unit stmt" where
  "slider_setValue s v w =
     (let sl = slider w s;
          v' = qBound (minimum sl) v (maximum sl)
      in if v' = wvalue sl then (Inr (), w)
         else block (map run_value_slot (valueChanged sl))
                (w\<lparr>slider := (slider w)(s := sl\<lparr>wvalue := v'\<rparr>)\<rparr>))"

definition slider_setRange :: "slider_name \<Rightarrow> int \<Rightarrow> int \<Rightarrow> unit stmt" where
  "slider_setRange s lo hi =
     then_m
       (modify (\<lambda>w. w\<lparr>slider := (slider w)(s := (slider w s)\<lparr>minimum := lo, maximum := max lo hi\<rparr>)\<rparr>))
       (\<lambda>w. slider_setValue s (wvalue (slider w s)) w)"

subsection \<open>Pages (lines 110 to 157)\<close>

definition on_page_changed :: "int \<Rightarrow> unit stmt" where
  "on_page_changed index =
     try_except (settings_setValue ''lastPageIndex'' (QInt index)) (\<lambda>e. logger_error [] e)"

definition run_page_slot :: "int \<Rightarrow> page_slot \<Rightarrow> unit stmt" where
  "run_page_slot index h = (case h of Slot_on_page_changed \<Rightarrow> on_page_changed index)"

text \<open>
  \<open>QStackedWidget::setCurrentIndex\<close> ignores an index that is not a page and emits
  \<open>currentChanged\<close> when the current page changes.
\<close>

definition setCurrentIndex :: "int \<Rightarrow> unit stmt" where
  "setCurrentIndex i w =
     (if 0 \<le> i \<and> i < stack_count w \<and> i \<noteq> stack_index w
      then block (map (run_page_slot i) (currentChanged w)) (w\<lparr>stack_index := i\<rparr>)
      else (Inr (), w))"

definition resize :: "int \<Rightarrow> int \<Rightarrow> unit stmt" where
  "resize a b =
     modify (\<lambda>w. w\<lparr>win_size := (case fixed_size w of None \<Rightarrow> (a, b) | Some sz \<Rightarrow> sz)\<rparr>)"

definition setFixedSize :: "int \<Rightarrow> int \<Rightarrow> unit stmt" where
  "setFixedSize a b = modify (\<lambda>w. w\<lparr>fixed_size := Some (a, b), win_size := (a, b)\<rparr>)"

definition switchone :: "unit stmt" where
  "switchone =
     block [(\<lambda>w. setCurrentIndex (onepage w) w), resize 476 175, setFixedSize 476 175]"

definition switchtwo :: "unit stmt" where
  "switchtwo =
     block [(\<lambda>w. setCurrentIndex (twopage w) w), resize 800 460, setFixedSize 800 460]"

subsection \<open>Setup methods (lines 87 to 107, 132 to 141, 159 to 222, 243 to 276)\<close>

definition app_operations :: "unit stmt" where
  "app_operations =
     try_except
       (block
         [connect_currentChanged Slot_on_page_changed,
          bind_m (bind_m (settings_value ''lastPageIndex'' (QInt 0)) as_int)
            (\<lambda>last_index. setCurrentIndex last_index),
          modify (\<lambda>w. w\<lparr>altman_time := current_time w\<rparr>),
          modify (\<lambda>w. w\<lparr>altman_date := current_date w\<rparr>)])
       (\<lambda>e. logger_error ''Error occurred while setting up app_operations : '' e)"

definition switch_page_view_setup :: "unit stmt" where
  "switch_page_view_setup =
     block
       [connect_triggered ActionShowAltmanExam Slot_switchone,
        connect_triggered ActionShowAltmanTable Slot_switchtwo]"

definition change_stack_pages :: "(action \<times> int) list" where
  "change_stack_pages = [(ActionShowAltmanExam, 0), (ActionShowAltmanTable, 1)]"

definition stack_navigation :: "unit stmt" where
  "stack_navigation =
     try_except
       (block (map (\<lambda>(action, page). connect_triggered action (Slot_change_stack_page page))
                 change_stack_pages))
       (\<lambda>e. logger_error ''An error has occurred: '' e)"

definition commit_fields :: "(string \<times> string) list" where
  "commit_fields =
     [(''altman_date'', ''altman_date''),
      (''altman_time'', ''altman_time''),
      (''altmans_sleep'', ''altmans_sleep''),
      (''altmans_speech'', ''altmans_speech''),
      (''altmans_activity'', ''altmans_activity''),
      (''altmans_cheer'', ''altmans_cheer''),
      (''altmans_confidence'', ''altmans_confidence''),
      (''altmans_summary'', ''altmans_summary''),
      (''model'', ''altmans_model'')]"

definition altman_table_commit :: "unit stmt" where
  "altman_table_commit =
     block
       [try_except
          (connect_triggered ActionCommit (Slot_add_altmans_data commit_fields))
          (\<lambda>e. logger_error ''An Error has occurred '' e),
        summary_setEnabled False,
        block (map (\<lambda>s. slider_setRange s 0 4) sliders),
        connect_valueChanged Altmans_sleep Slot_update_altmans_summary,
        connect_valueChanged Altmans_speech Slot_update_altmans_summary,
        connect_valueChanged Altmans_activity Slot_update_altmans_summary,
        connect_valueChanged Altmans_cheer Slot_update_altmans_summary,
        connect_valueChanged Altmans_confidence Slot_update_altmans_summary]"

definition delete_group :: "unit stmt" where
  "delete_group =
     connect_triggered ActionDelete
       (Slot_delete_selected_rows ''altmans_manic_rating_table'' ''altmans_model'')"

definition setup_models :: "unit stmt" where
  "setup_models =
     then_m (call (Create_and_set_model ''altman_table''))
       (modify (\<lambda>w. w\<lparr>altmans_model := Some ''altman_table''\<rparr>))"

subsection \<open>Window state (lines 278 to 337)\<close>

definition saveGeometry :: "qbytearray stmt" where
  "saveGeometry w = (Inr (Geometry_blob (win_size w)), w)"

definition saveState :: "qbytearray stmt" where
  "saveState w = (Inr (State_blob (frame_state w)), w)"

text \<open>
  \<open>restoreGeometry\<close> and \<open>restoreState\<close> return \<open>False\<close> and change nothing when the byte
  array is not one they can read; the window ignores what they return.
\<close>

definition restoreGeometry :: "qbytearray \<Rightarrow> unit stmt" where
  "restoreGeometry b =
     (case b of Geometry_blob sz \<Rightarrow> modify (\<lambda>w. w\<lparr>win_size := sz\<rparr>) | _ \<Rightarrow> return_m ())"

definition restoreState :: "qbytearray \<Rightarrow> unit stmt" where
  "restoreState b =
     (case b of State_blob st \<Rightarrow> modify (\<lambda>w. w\<lparr>frame_state := st\<rparr>) | _ \<Rightarrow> return_m ())"

definition save_state :: "unit stmt" where
  "save_state =
     block
       [try_except
          (bind_m saveGeometry (\<lambda>g. settings_setValue ''geometry'' (QBytes g)))
          (\<lambda>e. logger_error ''Error saving the minds_module geo'' e),
        try_except
          (bind_m saveState (\<lambda>st. settings_setValue ''windowState'' (QBytes st)))
          (\<lambda>e. logger_error ''Error saving the minds_module geo'' e)]"

definition restore_state :: "unit stmt" where
  "restore_state =
     block
       [try_except
          (bind_m (bind_m (settings_value ''geometry'' (QBytes QByteArray_empty)) as_bytes)
             restoreGeometry)
          (\<lambda>e. logger_error ''Error restoring the minds module : stress state '' e),
        try_except
          (bind_m (bind_m (settings_value ''windowState'' (QBytes QByteArray_empty)) as_bytes)
             restoreState)
          (\<lambda>e. logger_error ''Error restoring WINDOW STATE '' e)]"

definition closeEvent :: "unit stmt" where
  "closeEvent =
     try_except save_state (\<lambda>e. logger_error ''error saving state during closure: '' e)"

subsection \<open>Collaborators outside this file\<close>

definition change_stack_page :: "int \<Rightarrow> unit stmt" where
  \<comment> \<open>Modelled from the spec: \<open>navigation.master_navigation.change_stack_page\<close> is not in the
      sources; it is the page-navigation stack switching, which makes the given page the
      current one of the stacked widget.\<close>
  "change_stack_page p = setCurrentIndex p"

definition widget_value :: "window \<Rightarrow> string \<Rightarrow> field_value option" where
  \<comment> \<open>Modelled from the spec: the current value of the date field, the time field, a slider
      or the summary field, by the widget's attribute name.\<close>
  "widget_value w =
     map_of
       [(''altman_date'', FDate (altman_date w)),
        (''altman_time'', FTime (altman_time w)),
        (''altmans_sleep'', FInt (wvalue (slider w Altmans_sleep))),
        (''altmans_speech'', FInt (wvalue (slider w Altmans_speech))),
        (''altmans_activity'', FInt (wvalue (slider w Altmans_activity))),
        (''altmans_cheer'', FInt (wvalue (slider w Altmans_cheer))),
        (''altmans_confidence'', FInt (wvalue (slider w Altmans_confidence))),
        (''altmans_summary'', FInt (wvalue (altmans_summary w)))]"

definition insert_into_altman_table :: "(string \<times> field_value) list \<Rightarrow> unit stmt" where
  \<comment> \<open>Modelled from the spec: \<open>DataManager.insert_into_altman_table\<close> is not in the sources;
      it persists the values handed to it as one new row.\<close>
  "insert_into_altman_table row =
     then_m (call Insert_into_altman_table)
       (modify (\<lambda>w. w\<lparr>altman_table := altman_table w @ [row]\<rparr>))"

definition add_altmans_data ::
  "(string \<times> string) list \<Rightarrow> ((string \<times> field_value) list \<Rightarrow> unit stmt) \<Rightarrow> unit stmt" where
  \<comment> \<open>Modelled from the spec: \<open>database.altman_add_data.add_altmans_data\<close> is not in the
      sources; it gathers the current values of the widgets the mapping names, maps them to
      the named storage columns and hands them to the insert operation it is given.\<close>
  "add_altmans_data widget_names db_insert w =
     db_insert [(column, v). (column, name) \<leftarrow> widget_names, Some v \<leftarrow> [widget_value w name]] w"

definition delete_selected_rows :: "string \<Rightarrow> string \<Rightarrow> unit stmt" where
  \<comment> \<open>Modelled from the spec: \<open>database.database_utility.delete_records.delete_selected_rows\<close>
      is not in the sources; it removes the rows selected in the table view, whole rows, with
      no confirmation.\<close>
  "delete_selected_rows table_name model_name =
     then_m (call (Delete_rows table_name model_name))
       (modify (\<lambda>w. w\<lparr>altman_table :=
                        [r. (i, r) \<leftarrow> enumerate 0 (altman_table w), i \<notin> set (selected_rows w)],
                      selected_rows := []\<rparr>))"

subsection \<open>Actions, construction and events\<close>

definition run_action_slot :: "action_slot \<Rightarrow> unit stmt" where
  "run_action_slot h =
     (case h of
        Slot_change_stack_page p \<Rightarrow> change_stack_page p
      | Slot_add_altmans_data widget_names \<Rightarrow> add_altmans_data widget_names insert_into_altman_table
      | Slot_delete_selected_rows table_name model_name \<Rightarrow> delete_selected_rows table_name model_name
      | Slot_switchone \<Rightarrow> switchone
      | Slot_switchtwo \<Rightarrow> switchtwo)"

definition trigger :: "action \<Rightarrow> unit stmt" where
  "trigger a w = block (map run_action_slot (triggered w a)) w"

text \<open>
  \<open>MainWindow.__init__\<close> (lines 61 to 82), from the window as \<open>setupUi\<close> left it: the calls
  of the constructor in their order.  Creating the settings object and the window
  controller and setting the frameless flag change nothing of the state modelled here.
\<close>

definition init :: "unit stmt" where
  "init =
     block
       [call DataManager_init,
        setup_models,
        app_operations,
        restore_state,
        stack_navigation,
        delete_group,
        update_altmans_summary,
        altman_table_commit,
        switch_page_view_setup]"

text \<open>
  What the user can do to the window once it is shown.  The window after a list of events
  is computed whether or not a slot raised on the way, so a property of \<open>run_events\<close>
  covers every state the window can be in.
\<close>

datatype event =
  Move_slider slider_name int
  | Trigger action
  | Edit_date qdate
  | Edit_time qtime
  | Select_rows "nat list"
  | Close

definition handle :: "event \<Rightarrow> unit stmt" where
  "handle ev =
     (case ev of
        Move_slider s v \<Rightarrow> slider_setValue s v
      | Trigger a \<Rightarrow> trigger a
      | Edit_date d \<Rightarrow> modify (\<lambda>w. w\<lparr>altman_date := d\<rparr>)
      | Edit_time t \<Rightarrow> modify (\<lambda>w. w\<lparr>altman_time := t\<rparr>)
      | Select_rows rs \<Rightarrow> modify (\<lambda>w. w\<lparr>selected_rows := rs\<rparr>)
      | Close \<Rightarrow> closeEvent)"

fun run_events :: "event list \<Rightarrow> window \<Rightarrow> window" where
  "run_events [] w = w"
| "run_events (ev # evs) w = run_events evs (snd (handle ev w))"

subsection \<open>Properties stated by the claims\<close>

definition zero_filtered_sum :: "int list \<Rightarrow> int" where
  \<comment> \<open>The aggregate in the spec's words: the sum of the values that are greater than zero.\<close>
  "zero_filtered_sum vs = sum_list [v. v \<leftarrow> vs, v > 0]"

definition slider_values :: "window \<Rightarrow> int list" where
  "slider_values w = map (\<lambda>s. wvalue (slider w s)) sliders"

definition in_range :: "slider_name \<Rightarrow> window \<Rightarrow> bool" where
  "in_range s w =
     (minimum (slider w s) = 0 \<and> maximum (slider w s) = 4
      \<and> 0 \<le> wvalue (slider w s) \<and> wvalue (slider w s) \<le> 4)"

definition sliders_in_range :: "window \<Rightarrow> bool" where
  "sliders_in_range w = list_all (\<lambda>s. in_range s w) sliders"

definition wired :: "slider_name \<Rightarrow> window \<Rightarrow> bool" where
  "wired s w = (Slot_update_altmans_summary \<in> set (valueChanged (slider w s)))"

definition summary_holds_sums :: "window \<Rightarrow> bool" where
  \<comment> \<open>The range of the summary field contains every sum of five values in \<open>[0, 4]\<close>.\<close>
  "summary_holds_sums w = (minimum (altmans_summary w) \<le> 0 \<and> 20 \<le> maximum (altmans_summary w))"


definition calls_made :: "unit stmt \<Rightarrow> window \<Rightarrow> ext_op list" where
  \<comment> \<open>The external calls a statement attempts when run from \<open>w\<close>, in their order.\<close>
  "calls_made m w = drop (length (calls w)) (calls (snd (m w)))"

definition sliders_fixed ::
  "(slider_name \<Rightarrow> slider) \<times> int \<times> int \<Rightarrow> window \<Rightarrow> bool" where
  "sliders_fixed c w =
     ((slider w, minimum (altmans_summary w), maximum (altmans_summary w)) = c)"

definition preserves :: "(window \<Rightarrow> bool) \<Rightarrow> 'a stmt \<Rightarrow> bool" where
  \<comment> \<open>\<open>P\<close> survives the statement, whether it returns or raises.\<close>
  "preserves P m = (\<forall>w. P w \<longrightarrow> P (snd (m w)))"

definition ensures :: "unit stmt \<Rightarrow> (window \<Rightarrow> bool) \<Rightarrow> bool" where
  \<comment> \<open>\<open>Q\<close> holds whenever the statement returns normally.\<close>
  "ensures m Q = (\<forall>w. fst (m w) = Inr () \<longrightarrow> Q (snd (m w)))"

definition depends_on_sliders :: "(window \<Rightarrow> bool) \<Rightarrow> bool" where
  "depends_on_sliders P =
     (\<forall>w w'. sliders_fixed (slider w, minimum (altmans_summary w), maximum (altmans_summary w)) w'
        \<longrightarrow> P w \<longrightarrow> P w')"

definition plain_sum_summary :: "unit stmt" where
  \<comment> \<open>The recomputation as the spec's note reads it: the plain sum of the five values,
      zero-valued sliders included.\<close>
  "plain_sum_summary w = summary_setValue (sum_list (slider_values w)) w"


text \<open>The window as the generated layout leaves it, with Qt's defaults for each widget.\<close>

definition ui_window :: window where
  "ui_window =
     \<lparr>slider = (\<lambda>s. \<lparr>minimum = 0, maximum = 99, wvalue = 0, valueChanged = []\<rparr>),
      altmans_summary = \<lparr>minimum = 0, maximum = 99, wvalue = 0, enabled = True\<rparr>,
      altman_date = QDate 2000 1 1,
      altman_time = QTime 0 0 0,
      stack_index = 0,
      stack_count = 2,
      onepage = 0,
      twopage = 1,
      currentChanged = [],
      triggered = (\<lambda>a. []),
      win_size = (476, 175),
      fixed_size = None,
      frame_state = [],
      settings = Map.empty,
      altmans_model = None,
      altman_table = [],
      selected_rows = [],
      current_date = QDate 2024 5 17,
      current_time = QTime 9 30 0,
      log = [],
      calls = [],
      faults = (\<lambda>n. False)\<rparr>"

text \<open>
  Windows used as examples: the default window with the sliders at (0, 2, 0, 3, 4), the
  default window whose next external call raises, and the constructed default window after
  the user moved one slider and then a second one.
\<close>

definition example_values :: window where
  "example_values = ui_window\<lparr>slider := (\<lambda>s. (slider ui_window s)\<lparr>wvalue :=
      (case s of Altmans_sleep \<Rightarrow> 0 | Altmans_speech \<Rightarrow> 2 | Altmans_activity \<Rightarrow> 0
       | Altmans_cheer \<Rightarrow> 3 | Altmans_confidence \<Rightarrow> 4)\<rparr>)\<rparr>"

definition geometry_write_fails :: window where
  "geometry_write_fails = ui_window\<lparr>faults := (\<lambda>n. n = 0)\<rparr>"

definition first_move :: window where
  "first_move = run_events [Move_slider Altmans_sleep 7] (snd (init ui_window))"

definition moved_window :: window where
  "moved_window =
     run_events [Move_slider Altmans_sleep 7, Move_slider Altmans_cheer 2] (snd (init ui_window))"

section \<open>Verification\<close>

subsection \<open>Rules for statements\<close>

lemmas stmt_simps = return_m_def raise_m_def bind_m_def then_m_def try_except_def modify_def
  call_def logger_error_def Let_def

lemma update_altmans_summary_eq:
  "update_altmans_summary w =
     (Inr (), w\<lparr>altmans_summary := (altmans_summary w)\<lparr>wvalue :=
        qBound (minimum (altmans_summary w)) (zero_filtered_sum (slider_values w))
          (maximum (altmans_summary w))\<rparr>\<rparr>)"
  by (simp add: update_altmans_summary_def try_except_def summary_setValue_def modify_def
      zero_filtered_sum_def slider_values_def Let_def filter_map comp_def)

lemma update_altmans_summary_idem:
  "update_altmans_summary (snd (update_altmans_summary w)) = update_altmans_summary w"
  by (simp add: update_altmans_summary_eq slider_values_def)

lemma run_value_slots_eq:
  "block (map run_value_slot hs) w = (if hs = [] then (Inr (), w) else update_altmans_summary w)"
proof (induction hs arbitrary: w)
  case Nil
  show ?case by (simp add: return_m_def)
next
  case (Cons h hs)
  have h: "run_value_slot h = update_altmans_summary"
    by (cases h) (simp add: run_value_slot_def)
  obtain w' where w': "update_altmans_summary w = (Inr (), w')"
    by (simp add: update_altmans_summary_eq)
  have "update_altmans_summary w' = update_altmans_summary w"
    using update_altmans_summary_idem [of w] w' by simp
  then show ?case
    using Cons.IH [of w'] w' h by (simp add: then_m_def bind_m_def return_m_def)
qed

lemma slider_setValue_eq:
  "slider_setValue s v w =
     (let v' = qBound (minimum (slider w s)) v (maximum (slider w s))
      in if v' = wvalue (slider w s) then (Inr (), w)
         else if valueChanged (slider w s) = []
           then (Inr (), w\<lparr>slider := (slider w)(s := (slider w s)\<lparr>wvalue := v'\<rparr>)\<rparr>)
           else update_altmans_summary (w\<lparr>slider := (slider w)(s := (slider w s)\<lparr>wvalue := v'\<rparr>)\<rparr>))"
  by (simp add: slider_setValue_def Let_def run_value_slots_eq)

lemma preserves_return: "preserves P (return_m x)"
  by (simp add: preserves_def return_m_def)

lemma preserves_raise: "preserves P (raise_m e)"
  by (simp add: preserves_def raise_m_def)

lemma preserves_bind:
  "preserves P f \<Longrightarrow> (\<And>x. preserves P (g x)) \<Longrightarrow> preserves P (bind_m f g)"
  unfolding preserves_def bind_m_def
  by (auto split: prod.splits sum.splits)

lemma preserves_then: "preserves P f \<Longrightarrow> preserves P g \<Longrightarrow> preserves P (then_m f g)"
  by (simp add: then_m_def preserves_bind)

lemma preserves_block: "(\<And>s. s \<in> set ss \<Longrightarrow> preserves P s) \<Longrightarrow> preserves P (block ss)"
  by (induction ss) (auto intro: preserves_return preserves_then)

lemma preserves_try:
  "preserves P f \<Longrightarrow> (\<And>e. preserves P (h e)) \<Longrightarrow> preserves P (try_except f h)"
  unfolding preserves_def try_except_def
  by (auto split: prod.splits sum.splits)

lemma preserves_modify: "(\<And>w. P w \<Longrightarrow> P (f w)) \<Longrightarrow> preserves P (modify f)"
  by (simp add: preserves_def modify_def)

lemma preserves_reading: "(\<And>w0. preserves P (f w0)) \<Longrightarrow> preserves P (\<lambda>w. f w w)"
  by (simp add: preserves_def)

lemma ensures_then_fst: "ensures f Q \<Longrightarrow> preserves Q g \<Longrightarrow> ensures (then_m f g) Q"
proof (unfold ensures_def, intro allI impI)
  fix w
  assume f: "\<forall>w. fst (f w) = Inr () \<longrightarrow> Q (snd (f w))" and g: "preserves Q g"
    and r: "fst (then_m f g w) = Inr ()"
  obtain x w1 where fw: "f w = (x, w1)" by (cases "f w")
  with r have x: "x = Inr ()" by (cases x) (simp_all add: then_m_def bind_m_def)
  with f fw have "Q w1" by (metis fst_conv snd_conv)
  with g have "Q (snd (g w1))" by (simp add: preserves_def)
  with fw x show "Q (snd (then_m f g w))" by (simp add: then_m_def bind_m_def)
qed

lemma ensures_then_snd: "ensures g Q \<Longrightarrow> ensures (then_m f g) Q"
proof (unfold ensures_def, intro allI impI)
  fix w
  assume g: "\<forall>w. fst (g w) = Inr () \<longrightarrow> Q (snd (g w))"
    and r: "fst (then_m f g w) = Inr ()"
  obtain x w1 where fw: "f w = (x, w1)" by (cases "f w")
  with r have x: "x = Inr ()" by (cases x) (simp_all add: then_m_def bind_m_def)
  with fw r have "fst (g w1) = Inr ()" by (simp add: then_m_def bind_m_def)
  with g have "Q (snd (g w1))" by simp
  with fw x show "Q (snd (then_m f g w))" by (simp add: then_m_def bind_m_def)
qed

lemma ensures_always: "(\<And>w. Q (snd (m w))) \<Longrightarrow> ensures m Q"
  by (simp add: ensures_def)

subsection \<open>Statements that leave the sliders and the range of the summary field alone\<close>

lemma fixed_call: "preserves (sliders_fixed c) (call opn)"
  by (simp add: preserves_def call_def sliders_fixed_def Let_def)

lemma fixed_logger_error: "preserves (sliders_fixed c) (logger_error msg e)"
  by (simp add: preserves_def logger_error_def modify_def sliders_fixed_def)

lemma fixed_settings_setValue: "preserves (sliders_fixed c) (settings_setValue k v)"
  unfolding settings_setValue_def
  by (intro preserves_then fixed_call preserves_modify) (simp add: sliders_fixed_def)

lemma fixed_settings_value: "preserves (sliders_fixed c) (settings_value k d)"
  unfolding settings_value_def
  by (intro preserves_then fixed_call) (simp add: preserves_def)

lemma fixed_as_int: "preserves (sliders_fixed c) (as_int v)"
  by (cases v) (simp_all add: as_int_def preserves_return preserves_raise)

lemma fixed_as_bytes: "preserves (sliders_fixed c) (as_bytes v)"
  by (cases v) (simp_all add: as_bytes_def preserves_return preserves_raise)

lemma fixed_connect_currentChanged: "preserves (sliders_fixed c) (connect_currentChanged h)"
  unfolding connect_currentChanged_def
  by (intro preserves_then fixed_call preserves_modify) (simp add: sliders_fixed_def)

lemma fixed_connect_triggered: "preserves (sliders_fixed c) (connect_triggered a h)"
  unfolding connect_triggered_def
  by (intro preserves_then fixed_call preserves_modify) (simp add: sliders_fixed_def)

lemma fixed_update_altmans_summary: "preserves (sliders_fixed c) update_altmans_summary"
  by (simp add: preserves_def update_altmans_summary_eq sliders_fixed_def)

lemma fixed_summary_setEnabled: "preserves (sliders_fixed c) (summary_setEnabled b)"
  unfolding summary_setEnabled_def
  by (intro preserves_modify) (simp add: sliders_fixed_def)

lemma fixed_on_page_changed: "preserves (sliders_fixed c) (on_page_changed i)"
  unfolding on_page_changed_def
  by (intro preserves_try fixed_settings_setValue fixed_logger_error)

lemma fixed_run_page_slot: "preserves (sliders_fixed c) (run_page_slot i h)"
  by (cases h) (simp add: run_page_slot_def fixed_on_page_changed)

lemma fixed_setCurrentIndex: "preserves (sliders_fixed c) (setCurrentIndex i)"
proof -
  have b: "preserves (sliders_fixed c) (block (map (run_page_slot i) hs))" for hs
    by (rule preserves_block) (auto simp: fixed_run_page_slot)
  show ?thesis
    unfolding preserves_def setCurrentIndex_def
    using b [unfolded preserves_def] by (auto simp: sliders_fixed_def)
qed

lemma fixed_resize: "preserves (sliders_fixed c) (resize a b)"
  unfolding resize_def by (intro preserves_modify) (simp add: sliders_fixed_def)

lemma fixed_setFixedSize: "preserves (sliders_fixed c) (setFixedSize a b)"
  unfolding setFixedSize_def by (intro preserves_modify) (simp add: sliders_fixed_def)

lemma fixed_switchone: "preserves (sliders_fixed c) switchone"
  unfolding switchone_def
  by (rule preserves_block)
    (auto intro: preserves_reading fixed_setCurrentIndex fixed_resize fixed_setFixedSize)

lemma fixed_switchtwo: "preserves (sliders_fixed c) switchtwo"
  unfolding switchtwo_def
  by (rule preserves_block)
    (auto intro: preserves_reading fixed_setCurrentIndex fixed_resize fixed_setFixedSize)

lemma fixed_saveGeometry: "preserves P saveGeometry"
  by (simp add: preserves_def saveGeometry_def)

lemma fixed_saveState: "preserves P saveState"
  by (simp add: preserves_def saveState_def)

lemma fixed_save_state: "preserves (sliders_fixed c) save_state"
  unfolding save_state_def
  by (rule preserves_block)
    (auto intro!: preserves_try preserves_bind fixed_settings_setValue fixed_logger_error
       fixed_saveGeometry fixed_saveState)

lemma fixed_closeEvent: "preserves (sliders_fixed c) closeEvent"
  unfolding closeEvent_def
  by (intro preserves_try fixed_save_state fixed_logger_error)

lemma fixed_restoreGeometry: "preserves (sliders_fixed c) (restoreGeometry b)"
  by (cases b) (auto simp: restoreGeometry_def sliders_fixed_def intro!: preserves_return preserves_modify)

lemma fixed_restoreState: "preserves (sliders_fixed c) (restoreState b)"
  by (cases b) (auto simp: restoreState_def sliders_fixed_def intro!: preserves_return preserves_modify)

lemma fixed_restore_state: "preserves (sliders_fixed c) restore_state"
  unfolding restore_state_def
  by (rule preserves_block)
    (auto intro!: preserves_try preserves_bind fixed_settings_value fixed_as_bytes
       fixed_restoreGeometry fixed_restoreState fixed_logger_error)

lemma fixed_insert: "preserves (sliders_fixed c) (insert_into_altman_table row)"
  unfolding insert_into_altman_table_def
  by (intro preserves_then fixed_call preserves_modify) (simp add: sliders_fixed_def)

lemma fixed_add_altmans_data:
  "preserves (sliders_fixed c) (add_altmans_data names insert_into_altman_table)"
  using fixed_insert by (simp add: preserves_def add_altmans_data_def)

lemma fixed_delete_selected_rows: "preserves (sliders_fixed c) (delete_selected_rows t m)"
  unfolding delete_selected_rows_def
  by (intro preserves_then fixed_call preserves_modify) (simp add: sliders_fixed_def)

lemma fixed_run_action_slot: "preserves (sliders_fixed c) (run_action_slot h)"
  by (cases h)
    (simp_all add: run_action_slot_def change_stack_page_def fixed_setCurrentIndex
      fixed_add_altmans_data fixed_delete_selected_rows fixed_switchone fixed_switchtwo)

lemma fixed_trigger: "preserves (sliders_fixed c) (trigger a)"
proof -
  have b: "preserves (sliders_fixed c) (block (map run_action_slot hs))" for hs
    by (rule preserves_block) (auto simp: fixed_run_action_slot)
  show ?thesis
    unfolding preserves_def trigger_def
    using b [unfolded preserves_def] by auto
qed

lemma fixed_app_operations: "preserves (sliders_fixed c) app_operations"
  unfolding app_operations_def
  by (intro preserves_try fixed_logger_error preserves_block)
    (auto intro!: preserves_bind fixed_connect_currentChanged fixed_settings_value fixed_as_int
       fixed_setCurrentIndex preserves_modify simp: sliders_fixed_def)

lemma fixed_switch_page_view_setup: "preserves (sliders_fixed c) switch_page_view_setup"
  unfolding switch_page_view_setup_def
  by (rule preserves_block) (auto intro: fixed_connect_triggered)

lemma fixed_stack_navigation: "preserves (sliders_fixed c) stack_navigation"
  unfolding stack_navigation_def
  by (intro preserves_try fixed_logger_error preserves_block)
    (auto intro: fixed_connect_triggered)

lemma fixed_delete_group: "preserves (sliders_fixed c) delete_group"
  unfolding delete_group_def by (rule fixed_connect_triggered)

lemma fixed_setup_models: "preserves (sliders_fixed c) setup_models"
  unfolding setup_models_def
  by (intro preserves_then fixed_call preserves_modify) (simp add: sliders_fixed_def)

subsection \<open>Sliders\<close>

lemma all_sliders: "set sliders = UNIV"
proof -
  have "s \<in> set sliders" for s by (cases s) (simp_all add: sliders_def)
  then show ?thesis by auto
qed

lemma sliders_in_range_iff: "sliders_in_range w = (\<forall>s. in_range s w)"
  by (simp add: sliders_in_range_def list_all_iff all_sliders)

lemma slider_setValue_normal: "fst (slider_setValue s v w) = Inr ()"
  by (simp add: slider_setValue_eq update_altmans_summary_eq Let_def)

lemma slider_setValue_slider:
  "slider (snd (slider_setValue s v w)) =
     (slider w)(s := (slider w s)\<lparr>wvalue := qBound (minimum (slider w s)) v (maximum (slider w s))\<rparr>)"
  by (auto simp: slider_setValue_eq update_altmans_summary_eq Let_def fun_eq_iff)

lemma slider_setValue_summary_range:
  "minimum (altmans_summary (snd (slider_setValue s v w))) = minimum (altmans_summary w)
   \<and> maximum (altmans_summary (snd (slider_setValue s v w))) = maximum (altmans_summary w)"
  by (simp add: slider_setValue_eq update_altmans_summary_eq Let_def)

lemma slider_setRange_normal: "fst (slider_setRange s lo hi w) = Inr ()"
  by (simp add: slider_setRange_def then_m_def bind_m_def modify_def slider_setValue_normal)

lemma slider_setRange_slider:
  "slider (snd (slider_setRange s lo hi w)) =
     (slider w)(s := (slider w s)\<lparr>minimum := lo, maximum := max lo hi,
        wvalue := qBound lo (wvalue (slider w s)) (max lo hi)\<rparr>)"
  by (simp add: slider_setRange_def then_m_def bind_m_def modify_def slider_setValue_slider)

lemma slider_setRange_summary_range:
  "minimum (altmans_summary (snd (slider_setRange s lo hi w))) = minimum (altmans_summary w)
   \<and> maximum (altmans_summary (snd (slider_setRange s lo hi w))) = maximum (altmans_summary w)"
  by (simp add: slider_setRange_def then_m_def bind_m_def modify_def slider_setValue_summary_range)

lemma in_range_setValue: "preserves (in_range t) (slider_setValue s v)"
  by (auto simp: preserves_def in_range_def slider_setValue_slider qBound_def)

lemma wired_setValue: "preserves (wired t) (slider_setValue s v)"
  by (auto simp: preserves_def wired_def slider_setValue_slider)

lemma summary_range_setValue: "preserves summary_holds_sums (slider_setValue s v)"
  by (simp add: preserves_def summary_holds_sums_def slider_setValue_summary_range)

lemma in_range_setRange: "preserves (in_range t) (slider_setRange s 0 4)"
  by (auto simp: preserves_def in_range_def slider_setRange_slider qBound_def)

lemma in_range_setRange_self: "in_range s (snd (slider_setRange s 0 4 w))"
  by (auto simp: in_range_def slider_setRange_slider qBound_def)

lemma summary_range_setRange: "preserves summary_holds_sums (slider_setRange s lo hi)"
  by (simp add: preserves_def summary_holds_sums_def slider_setRange_summary_range)

lemma connect_valueChanged_eq:
  "connect_valueChanged s h w =
     (if faults w (length (calls w))
      then (Inl (Failure (Connect (ValueChanged s))), w\<lparr>calls := calls w @ [Connect (ValueChanged s)]\<rparr>)
      else (Inr (), w\<lparr>calls := calls w @ [Connect (ValueChanged s)],
              slider := (slider w)(s := (slider w s)\<lparr>valueChanged := valueChanged (slider w s) @ [h]\<rparr>)\<rparr>))"
  by (simp add: connect_valueChanged_def then_m_def bind_m_def call_def modify_def Let_def)

lemma in_range_connect: "preserves (in_range t) (connect_valueChanged s h)"
  by (auto simp: preserves_def in_range_def connect_valueChanged_eq)

lemma wired_connect: "preserves (wired t) (connect_valueChanged s h)"
  by (auto simp: preserves_def wired_def connect_valueChanged_eq)

lemma wired_connect_self: "ensures (connect_valueChanged s Slot_update_altmans_summary) (wired s)"
  by (auto simp: ensures_def wired_def connect_valueChanged_eq)

lemma summary_range_connect: "preserves summary_holds_sums (connect_valueChanged s h)"
  by (auto simp: preserves_def summary_holds_sums_def connect_valueChanged_eq)

subsection \<open>Lifting\<close>

lemma depends_in_range: "depends_on_sliders (in_range t)"
  by (simp add: depends_on_sliders_def sliders_fixed_def in_range_def)

lemma depends_wired: "depends_on_sliders (wired t)"
  by (simp add: depends_on_sliders_def sliders_fixed_def wired_def)

lemma depends_summary_range: "depends_on_sliders summary_holds_sums"
  by (simp add: depends_on_sliders_def sliders_fixed_def summary_holds_sums_def)

lemma preserves_lift:
  assumes "\<And>c. preserves (sliders_fixed c) m" and "depends_on_sliders P"
  shows "preserves P m"
proof (unfold preserves_def, intro allI impI)
  fix w assume P: "P w"
  let ?c = "(slider w, minimum (altmans_summary w), maximum (altmans_summary w))"
  have "sliders_fixed ?c w" by (simp add: sliders_fixed_def)
  with assms(1) have "sliders_fixed ?c (snd (m w))" by (simp add: preserves_def)
  with assms(2) P show "P (snd (m w))" unfolding depends_on_sliders_def by blast
qed


subsection \<open>Events\<close>

lemma fixed_modify:
  "(\<And>w. slider (f w) = slider w \<and> altmans_summary (f w) = altmans_summary w)
   \<Longrightarrow> preserves (sliders_fixed c) (modify f)"
  by (rule preserves_modify) (simp add: sliders_fixed_def)

lemma handle_cases:
  assumes "\<And>s v. preserves P (slider_setValue s v)" and "depends_on_sliders P"
  shows "preserves P (handle ev)"
proof (cases ev)
  case (Move_slider s v)
  then show ?thesis by (simp add: handle_def assms(1))
next
  case (Trigger a)
  then show ?thesis by (simp add: handle_def preserves_lift [OF fixed_trigger assms(2)])
next
  case (Edit_date d)
  then show ?thesis
    by (simp add: handle_def) (rule preserves_lift [OF _ assms(2)], rule fixed_modify, simp)
next
  case (Edit_time t)
  then show ?thesis
    by (simp add: handle_def) (rule preserves_lift [OF _ assms(2)], rule fixed_modify, simp)
next
  case (Select_rows rs)
  then show ?thesis
    by (simp add: handle_def) (rule preserves_lift [OF _ assms(2)], rule fixed_modify, simp)
next
  case Close
  then show ?thesis by (simp add: handle_def preserves_lift [OF fixed_closeEvent assms(2)])
qed

lemma run_events_preserves:
  "(\<And>ev. preserves P (handle ev)) \<Longrightarrow> P w \<Longrightarrow> P (run_events evs w)"
proof (induction evs arbitrary: w)
  case Nil
  then show ?case by simp
next
  case (Cons ev evs)
  from Cons.prems have "P (snd (handle ev w))" by (simp add: preserves_def)
  with Cons show ?case by simp
qed

lemma in_range_run_events: "in_range t w \<Longrightarrow> in_range t (run_events evs w)"
  by (rule run_events_preserves) (rule handle_cases in_range_setValue depends_in_range)+

lemma wired_run_events: "wired t w \<Longrightarrow> wired t (run_events evs w)"
  by (rule run_events_preserves) (rule handle_cases wired_setValue depends_wired)+

lemma summary_range_run_events:
  "summary_holds_sums w \<Longrightarrow> summary_holds_sums (run_events evs w)"
  by (rule run_events_preserves)
    (rule handle_cases summary_range_setValue depends_summary_range)+

subsection \<open>What the constructor establishes\<close>

lemma setRange_all_in_range:
  "list_all (\<lambda>t. in_range t (snd (block (map (\<lambda>s. slider_setRange s 0 4) ss) w))) ss"
proof (induction ss arbitrary: w)
  case Nil
  show ?case by simp
next
  case (Cons s ss)
  obtain w1 where w1: "slider_setRange s 0 4 w = (Inr (), w1)"
    using slider_setRange_normal [of s 0 4 w] by (cases "slider_setRange s 0 4 w") simp
  have s1: "in_range s w1"
    using in_range_setRange_self [of s w] w1 by simp
  have "preserves (in_range s) (block (map (\<lambda>s. slider_setRange s 0 4) ss))"
    by (rule preserves_block) (auto simp: in_range_setRange)
  with s1 have "in_range s (snd (block (map (\<lambda>s. slider_setRange s 0 4) ss) w1))"
    by (simp add: preserves_def)
  with Cons.IH [of w1] w1 show ?case
    by (simp add: then_m_def bind_m_def)
qed

lemma setRange_all_ensures:
  "ensures (block (map (\<lambda>s. slider_setRange s 0 4) sliders)) sliders_in_range"
  by (rule ensures_always) (simp add: sliders_in_range_def setRange_all_in_range)

lemma in_range_all_connect: "preserves sliders_in_range (connect_valueChanged s h)"
  using in_range_connect [of _ s h]
  by (simp add: preserves_def sliders_in_range_iff)

lemma altman_table_commit_in_range: "ensures altman_table_commit sliders_in_range"
  unfolding altman_table_commit_def block.simps
  by (intro ensures_then_snd [of _ sliders_in_range "try_except _ _"]
      ensures_then_snd [of _ sliders_in_range "summary_setEnabled _"]
      ensures_then_fst setRange_all_ensures
      preserves_then in_range_all_connect preserves_return)


lemma ensures_block:
  "ensures s Q \<Longrightarrow> (\<And>t. t \<in> set post \<Longrightarrow> preserves Q t) \<Longrightarrow> ensures (block (pre @ s # post)) Q"
proof (induction pre)
  case Nil
  then show ?case by (simp add: ensures_then_fst preserves_block)
next
  case (Cons p pre)
  then show ?case by (simp add: ensures_then_snd)
qed

lemma altman_table_commit_wired: "ensures altman_table_commit (wired s)"
proof -
  let ?T = "try_except (connect_triggered ActionCommit (Slot_add_altmans_data commit_fields))
              (\<lambda>e. logger_error ''An Error has occurred '' e)"
  let ?R = "block (map (\<lambda>s. slider_setRange s 0 4) sliders)"
  let ?C = "\<lambda>s. connect_valueChanged s Slot_update_altmans_summary"
  let ?pre = "[?T, summary_setEnabled False, ?R]"
  let ?all = "map ?C sliders"
  have eq: "altman_table_commit = block (?pre @ ?all)"
    by (simp add: altman_table_commit_def sliders_def)
  have "?C s \<in> set ?all" by (simp add: all_sliders)
  then have "\<exists>before after. ?all = before @ ?C s # after"
    by (rule split_list)
  then obtain before after where split: "?all = before @ ?C s # after"
    by blast
  have post: "preserves (wired s) t" if "t \<in> set after" for t
  proof -
    from that have "t \<in> set ?all" by (simp add: split)
    then show ?thesis by (auto simp: wired_connect)
  qed
  have "ensures (block ((?pre @ before) @ ?C s # after)) (wired s)"
    by (rule ensures_block [OF wired_connect_self post])
  with eq split show ?thesis by simp
qed

lemma depends_sliders_in_range: "depends_on_sliders sliders_in_range"
  by (simp add: depends_on_sliders_def sliders_fixed_def sliders_in_range_def in_range_def)

lemma init_split:
  "init = block ([call DataManager_init, setup_models, app_operations, restore_state,
       stack_navigation, delete_group, update_altmans_summary]
     @ altman_table_commit # [switch_page_view_setup])"
  by (simp add: init_def)

lemma init_in_range: "ensures init sliders_in_range"
  unfolding init_split
  by (rule ensures_block [OF altman_table_commit_in_range])
    (simp add: preserves_lift [OF fixed_switch_page_view_setup depends_sliders_in_range])

lemma init_wired: "ensures init (wired s)"
  unfolding init_split
  by (rule ensures_block [OF altman_table_commit_wired])
    (simp add: preserves_lift [OF fixed_switch_page_view_setup depends_wired])

lemma summary_range_altman_table_commit: "preserves summary_holds_sums altman_table_commit"
proof -
  have 1: "preserves summary_holds_sums
      (try_except (connect_triggered ActionCommit (Slot_add_altmans_data commit_fields))
         (\<lambda>e. logger_error ''An Error has occurred '' e))"
    by (rule preserves_lift [OF _ depends_summary_range])
      (intro preserves_try fixed_connect_triggered fixed_logger_error)
  have 2: "preserves summary_holds_sums (summary_setEnabled False)"
    by (rule preserves_lift [OF fixed_summary_setEnabled depends_summary_range])
  have 3: "preserves summary_holds_sums (block (map (\<lambda>s. slider_setRange s 0 4) sliders))"
    by (rule preserves_block) (auto simp: summary_range_setRange)
  show ?thesis
    unfolding altman_table_commit_def
    by (rule preserves_block) (auto simp: 1 2 3 summary_range_connect)
qed

lemma summary_range_init: "preserves summary_holds_sums init"
proof -
  note lift = preserves_lift [OF _ depends_summary_range]
  show ?thesis
    unfolding init_def
    by (rule preserves_block)
      (auto simp: lift [OF fixed_call] lift [OF fixed_setup_models]
         lift [OF fixed_app_operations] lift [OF fixed_restore_state]
         lift [OF fixed_stack_navigation] lift [OF fixed_delete_group]
         lift [OF fixed_update_altmans_summary] lift [OF fixed_switch_page_view_setup]
         summary_range_altman_table_commit)
qed

subsection \<open>The zero-filtered sum\<close>

lemma zero_filtered_sum_plain:
  "\<forall>v \<in> set vs. 0 \<le> v \<Longrightarrow> zero_filtered_sum vs = sum_list vs"
  unfolding zero_filtered_sum_def
  by (induction vs) auto

lemma zero_filtered_sum_bounds:
  "\<forall>v \<in> set vs. 0 \<le> v \<and> v \<le> 4 \<Longrightarrow>
     0 \<le> zero_filtered_sum vs \<and> zero_filtered_sum vs \<le> 4 * int (length vs)"
  unfolding zero_filtered_sum_def
  by (induction vs) auto

lemma slider_values_bounds:
  "sliders_in_range w \<Longrightarrow>
     0 \<le> zero_filtered_sum (slider_values w) \<and> zero_filtered_sum (slider_values w) \<le> 20"
  using zero_filtered_sum_bounds [of "slider_values w"]
  by (auto simp: slider_values_def sliders_in_range_iff in_range_def sliders_def)

subsection \<open>Saving and closing\<close>

lemma save_state_eq:
  "save_state w =
     (let n = length (calls w);
          g = QBytes (Geometry_blob (win_size w));
          st = QBytes (State_blob (frame_state w));
          e1 = Failure (Settings_setValue ''geometry'');
          e2 = Failure (Settings_setValue ''windowState'');
          msg = ''Error saving the minds_module geo''
      in (Inr (),
          w\<lparr>calls := calls w @ [Settings_setValue ''geometry'', Settings_setValue ''windowState''],
            settings :=
              (if faults w n then (if faults w (Suc n) then settings w
                                   else (settings w)(''windowState'' \<mapsto> st))
               else if faults w (Suc n) then (settings w)(''geometry'' \<mapsto> g)
               else (settings w)(''geometry'' \<mapsto> g, ''windowState'' \<mapsto> st)),
            log := log w @ (if faults w n then [(msg, e1)] else [])
                         @ (if faults w (Suc n) then [(msg, e2)] else [])\<rparr>))"
  by (simp add: save_state_def settings_setValue_def saveGeometry_def saveState_def stmt_simps)

lemma closeEvent_eq: "closeEvent w = save_state w"
  by (simp add: closeEvent_def try_except_def save_state_eq Let_def)

subsection \<open>Startup\<close>

lemma on_page_changed_eq:
  "on_page_changed i w =
     (Inr (),
      if faults w (length (calls w))
      then w\<lparr>calls := calls w @ [Settings_setValue ''lastPageIndex''],
             log := log w @ [([], Failure (Settings_setValue ''lastPageIndex''))]\<rparr>
      else w\<lparr>calls := calls w @ [Settings_setValue ''lastPageIndex''],
             settings := (settings w)(''lastPageIndex'' \<mapsto> QInt i)\<rparr>)"
  by (simp add: on_page_changed_def settings_setValue_def stmt_simps)

lemma block_normal:
  "(\<And>s w. s \<in> set ss \<Longrightarrow> fst (s w) = Inr ()) \<Longrightarrow> fst (block ss w) = Inr ()"
proof (induction ss arbitrary: w)
  case Nil
  show ?case by (simp add: return_m_def)
next
  case (Cons s ss)
  have "fst (s w) = Inr ()" using Cons.prems by simp
  then obtain w1 where "s w = (Inr (), w1)" by (cases "s w") simp
  then show ?case using Cons by (simp add: then_m_def bind_m_def)
qed









lemma try_logged_normal: "fst (try_except f (\<lambda>e. logger_error msg e) w) = Inr ()"
  by (cases "f w") (auto simp: try_except_def logger_error_def modify_def split: sum.splits)

lemma app_operations_normal: "fst (app_operations w) = Inr ()"
  by (simp add: app_operations_def try_logged_normal)

lemma restore_state_normal: "fst (restore_state w) = Inr ()"
  unfolding restore_state_def
  by (rule block_normal) (auto simp: try_logged_normal)




lemma guarded_methods_return:
  "fst (app_operations w) = Inr () \<and> fst (on_page_changed i w) = Inr ()
   \<and> fst (stack_navigation w) = Inr () \<and> fst (update_altmans_summary w) = Inr ()
   \<and> fst (save_state w) = Inr () \<and> fst (restore_state w) = Inr ()
   \<and> fst (closeEvent w) = Inr ()"
  by (simp add: app_operations_normal on_page_changed_eq stack_navigation_def
      try_logged_normal update_altmans_summary_eq save_state_eq restore_state_normal
      closeEvent_eq Let_def)

subsection \<open>The commit connection\<close>



subsection \<open>The example windows\<close>

lemmas run_defs = stmt_simps
  init_def setup_models_def app_operations_def restore_state_def stack_navigation_def
  delete_group_def altman_table_commit_def switch_page_view_setup_def
  connect_currentChanged_def connect_triggered_def connect_valueChanged_eq
  settings_value_def settings_setValue_def as_int_def as_bytes_def setCurrentIndex_def
  restoreGeometry_def restoreState_def change_stack_pages_def summary_setEnabled_def
  slider_setRange_def slider_setValue_eq update_altmans_summary_eq sliders_def qBound_def
  zero_filtered_sum_def slider_values_def handle_def

lemma init_ui_window: "fst (init ui_window) = Inr ()"
  by (simp add: run_defs ui_window_def)

lemma first_move_facts: "wvalue (slider first_move Altmans_cheer) = 0"
  by (simp add: first_move_def run_defs ui_window_def)

lemma moved_window_step: "moved_window = snd (handle (Move_slider Altmans_cheer 2) first_move)"
  by (simp add: moved_window_def first_move_def)

lemma moved_window_let:
  "let w = moved_window in
   triggered w ActionCommit = [Slot_add_altmans_data commit_fields]
   \<and> \<not> faults w (length (calls w))
   \<and> altman_table w = []
   \<and> altman_date w = QDate 2024 5 17
   \<and> altman_time w = QTime 9 30 0
   \<and> slider_values w = [4, 0, 0, 2, 0]
   \<and> wvalue (altmans_summary w) = 6"
  by (simp add: moved_window_def run_defs ui_window_def)

lemmas moved_window_facts = moved_window_let [unfolded Let_def]


lemma example_values_sliders: "slider_values example_values = [0, 2, 0, 3, 4]"
  by (simp add: slider_values_def sliders_def example_values_def ui_window_def)

lemma example_values_summary: "summary_holds_sums example_values"
  by (simp add: summary_holds_sums_def example_values_def ui_window_def)

section \<open>The claims\<close>

text \<open>
  C1. For every combination of the five slider values, each in \<open>[0, 4]\<close>,
  \<open>update_altmans_summary\<close> returns normally and writes into the summary field the sum of
  the values that are greater than zero; in particular (0, 2, 0, 3, 4) gives 9,
  (0, 0, 0, 0, 0) gives 0 and (4, 4, 4, 4, 4) gives 20.  The summary field is a ranged
  widget declared by the generated layout: its range has to hold the sums, as Qt's default
  range 0 to 99 does.
\<close>

theorem update_altmans_summary_sum:
  assumes "slider_values w = [a, b, c, d, e]"
    and "\<forall>v \<in> set [a, b, c, d, e]. 0 \<le> v \<and> v \<le> 4"
    and "summary_holds_sums w"
  shows "fst (update_altmans_summary w) = Inr ()
    \<and> wvalue (altmans_summary (snd (update_altmans_summary w)))
        = sum_list [v. v \<leftarrow> [a, b, c, d, e], v > 0]
    \<and> ([a, b, c, d, e] = [0, 2, 0, 3, 4]
        \<longrightarrow> wvalue (altmans_summary (snd (update_altmans_summary w))) = 9)
    \<and> ([a, b, c, d, e] = [0, 0, 0, 0, 0]
        \<longrightarrow> wvalue (altmans_summary (snd (update_altmans_summary w))) = 0)
    \<and> ([a, b, c, d, e] = [4, 4, 4, 4, 4]
        \<longrightarrow> wvalue (altmans_summary (snd (update_altmans_summary w))) = 20)"
proof -
  let ?t = "zero_filtered_sum [a, b, c, d, e]"
  have b: "0 \<le> ?t \<and> ?t \<le> 20"
    using zero_filtered_sum_bounds [of "[a, b, c, d, e]"] assms(2) by simp
  have v: "wvalue (altmans_summary (snd (update_altmans_summary w))) = ?t"
    using b assms(1,3)
    by (simp add: update_altmans_summary_eq qBound_def summary_holds_sums_def)
  show ?thesis
    using v by (auto simp: update_altmans_summary_eq zero_filtered_sum_def)
qed

theorem update_altmans_summary_sum_witness:
  "slider_values example_values = [0, 2, 0, 3, 4]
   \<and> list_all (\<lambda>v. 0 \<le> v \<and> v \<le> 4) [0, 2, 0, 3, 4 :: int]
   \<and> summary_holds_sums example_values
   \<and> fst (update_altmans_summary example_values) = Inr ()
   \<and> wvalue (altmans_summary (snd (update_altmans_summary example_values))) = 9"
proof -
  have r: "\<forall>v \<in> set [0, 2, 0, 3, 4 :: int]. 0 \<le> v \<and> v \<le> 4" by simp
  show ?thesis
    using update_altmans_summary_sum [OF example_values_sliders r example_values_summary]
      example_values_sliders example_values_summary
    by simp
qed

text \<open>
  C2. In a window that was constructed and then used in any way, every slider's
  \<open>valueChanged\<close> signal is connected to \<open>update_altmans_summary\<close>, and a change of any one
  slider leaves the summary field equal to the zero-filtered sum of the sliders' values as
  they are after the change: the slider holds the new value bounded to \<open>[0, 4]\<close>, the other
  sliders are as before, and the recomputation has already run when the change returns.
  The range of the summary field has to hold the sums, as in C1.
\<close>

theorem slider_change_updates_summary:
  assumes "fst (init w0) = Inr ()" and "summary_holds_sums w0"
    and "w = run_events evs (snd (init w0))"
    and "w' = snd (handle (Move_slider s v) w)"
    and "wvalue (slider w' s) \<noteq> wvalue (slider w s)"
  shows "wvalue (altmans_summary w') = zero_filtered_sum (slider_values w')
    \<and> wvalue (slider w' s) = qBound 0 v 4
    \<and> (\<forall>t. t \<noteq> s \<longrightarrow> wvalue (slider w' t) = wvalue (slider w t))
    \<and> (\<forall>t. Slot_update_altmans_summary \<in> set (valueChanged (slider w t)))"
proof -
  have r0: "sliders_in_range (snd (init w0))"
    using assms(1) init_in_range by (simp add: ensures_def)
  have c0: "wired t (snd (init w0))" for t
    using assms(1) init_wired [of t] by (simp add: ensures_def)
  have h0: "summary_holds_sums (snd (init w0))"
    using assms(2) summary_range_init by (simp add: preserves_def)
  have r: "in_range t w" for t
    using r0 by (simp add: assms(3) sliders_in_range_iff in_range_run_events)
  have c: "wired t w" for t
    using c0 by (simp add: assms(3) wired_run_events)
  have h: "summary_holds_sums w"
    using h0 by (simp add: assms(3) summary_range_run_events)
  have w': "w' = snd (slider_setValue s v w)"
    by (simp add: assms(4) handle_def)
  have sl: "slider w' = (slider w)(s := (slider w s)\<lparr>wvalue := qBound 0 v 4\<rparr>)"
    using r [of s] by (simp add: w' slider_setValue_slider in_range_def)
  have r': "sliders_in_range w'"
    using r in_range_setValue [of _ s v]
    by (simp add: w' sliders_in_range_iff preserves_def)
  have ch: "qBound 0 v 4 \<noteq> wvalue (slider w s)"
    using assms(5) sl by simp
  have ne: "valueChanged (slider w s) \<noteq> []"
    using c [of s] by (auto simp: wired_def)
  let ?w1 = "w\<lparr>slider := (slider w)(s := (slider w s)\<lparr>wvalue := qBound 0 v 4\<rparr>)\<rparr>"
  have w'': "w' = snd (update_altmans_summary ?w1)"
    using r [of s] ch ne by (simp add: w' slider_setValue_eq in_range_def)
  have vals: "slider_values w' = slider_values ?w1"
    by (simp add: w'' update_altmans_summary_eq slider_values_def)
  have "wvalue (altmans_summary w') = zero_filtered_sum (slider_values w')"
    using slider_values_bounds [OF r'] h
    by (simp add: vals) (simp add: w'' update_altmans_summary_eq qBound_def summary_holds_sums_def)
  then show ?thesis
    using c by (simp add: sl wired_def)
qed

theorem slider_change_updates_summary_witness:
  "fst (init ui_window) = Inr () \<and> summary_holds_sums ui_window
   \<and> wvalue (slider moved_window Altmans_cheer) \<noteq> wvalue (slider first_move Altmans_cheer)
   \<and> wvalue (altmans_summary moved_window) = zero_filtered_sum (slider_values moved_window)
   \<and> wvalue (altmans_summary moved_window) = 6"
proof -
  have h: "summary_holds_sums ui_window"
    by (simp add: summary_holds_sums_def ui_window_def)
  have ch: "wvalue (slider moved_window Altmans_cheer) \<noteq> wvalue (slider first_move Altmans_cheer)"
    using moved_window_facts first_move_facts by (simp add: slider_values_def sliders_def)
  show ?thesis
    using slider_change_updates_summary
      [OF init_ui_window h first_move_def moved_window_step ch]
      init_ui_window h ch moved_window_facts
    by simp
qed




text \<open>
  C4. Not every wiring method catches a failure at its own boundary: \<open>setup_models\<close>,
  \<open>delete_group\<close> and \<open>switch_page_view_setup\<close> have no handler, and in
  \<open>altman_table_commit\<close> the slider connections lie after the handler.  When the call they
  make raises, the exception leaves the method, and from \<open>setup_models\<close> it leaves the
  constructor too; \<open>stack_navigation\<close>, which connects the same two menu actions inside a
  handler, returns normally on the same window.
\<close>

theorem unguarded_wiring_raises:
  "fst (setup_models (ui_window\<lparr>faults := (\<lambda>n. n = 0)\<rparr>))
     = Inl (Failure (Create_and_set_model ''altman_table''))
   \<and> fst (delete_group (ui_window\<lparr>faults := (\<lambda>n. n = 0)\<rparr>))
     = Inl (Failure (Connect (Triggered ActionDelete)))
   \<and> fst (switch_page_view_setup (ui_window\<lparr>faults := (\<lambda>n. n = 0)\<rparr>))
     = Inl (Failure (Connect (Triggered ActionShowAltmanExam)))
   \<and> fst (altman_table_commit (ui_window\<lparr>faults := (\<lambda>n. n = 1)\<rparr>))
     = Inl (Failure (Connect (ValueChanged Altmans_sleep)))
   \<and> fst (stack_navigation (ui_window\<lparr>faults := (\<lambda>n. n = 0)\<rparr>)) = Inr ()
   \<and> fst (init (ui_window\<lparr>faults := (\<lambda>n. n = 1)\<rparr>))
     = Inl (Failure (Create_and_set_model ''altman_table''))"
  by (simp add: setup_models_def delete_group_def switch_page_view_setup_def
      stack_navigation_def change_stack_pages_def connect_triggered_def init_def
      altman_table_commit_def summary_setEnabled_def slider_setRange_def slider_setValue_eq
      update_altmans_summary_eq connect_valueChanged_eq sliders_def qBound_def
      stmt_simps ui_window_def)






text \<open>
  C7. For five slider values each in \<open>[0, 4]\<close>, the sum over the values greater than zero
  is the plain sum of the five, and \<open>update_altmans_summary\<close> does exactly what the
  recomputation with the plain sum does.
\<close>

theorem filtering_is_plain_sum:
  assumes "slider_values w = [a, b, c, d, e]"
    and "\<forall>v \<in> set [a, b, c, d, e]. 0 \<le> v \<and> v \<le> 4"
  shows "sum_list [v. v \<leftarrow> [a, b, c, d, e], v > 0] = a + b + c + d + e
    \<and> update_altmans_summary w = plain_sum_summary w"
proof -
  have "zero_filtered_sum (slider_values w) = sum_list (slider_values w)"
    using assms by (intro zero_filtered_sum_plain) simp
  then have "update_altmans_summary w = plain_sum_summary w"
    by (simp add: update_altmans_summary_eq plain_sum_summary_def summary_setValue_def modify_def)
  moreover have "sum_list [v. v \<leftarrow> [a, b, c, d, e], v > 0] = a + b + c + d + e"
    using assms(2) by simp
  ultimately show ?thesis by simp
qed

theorem filtering_is_plain_sum_witness:
  "slider_values example_values = [0, 2, 0, 3, 4]
   \<and> list_all (\<lambda>v. 0 \<le> v \<and> v \<le> 4) [0, 2, 0, 3, 4 :: int]
   \<and> sum_list [v. v \<leftarrow> [0, 2, 0, 3, 4 :: int], v > 0] = 0 + 2 + 0 + 3 + 4
   \<and> update_altmans_summary example_values = plain_sum_summary example_values"
proof -
  have r: "\<forall>v \<in> set [0, 2, 0, 3, 4 :: int]. 0 \<le> v \<and> v \<le> 4" by simp
  show ?thesis
    using filtering_is_plain_sum [OF example_values_sliders r] example_values_sliders
    by simp
qed

text \<open>
  C8. When the constructor has returned, each of the five sliders has the range \<open>[0, 4]\<close>
  and a value in it, and this stays so after every sequence of operations on the window
  (moving a slider, triggering an action, editing the date or the time, selecting rows,
  closing).
\<close>

theorem sliders_stay_in_range:
  assumes "fst (init w0) = Inr ()"
  shows "sliders_in_range (run_events evs (snd (init w0)))
    \<and> (\<forall>s. 0 \<le> wvalue (slider (run_events evs (snd (init w0))) s)
           \<and> wvalue (slider (run_events evs (snd (init w0))) s) \<le> 4)"
proof -
  from assms have "sliders_in_range (snd (init w0))"
    using init_in_range by (simp add: ensures_def)
  then have "in_range s (run_events evs (snd (init w0)))" for s
    by (simp add: sliders_in_range_iff in_range_run_events)
  then show ?thesis
    by (simp add: sliders_in_range_iff) (simp add: in_range_def)
qed

theorem sliders_stay_in_range_witness:
  "fst (init ui_window) = Inr ()
   \<and> sliders_in_range moved_window
   \<and> slider_values moved_window = [4, 0, 0, 2, 0]"
proof -
  have "sliders_in_range moved_window"
    unfolding moved_window_def
    by (rule sliders_stay_in_range [OF init_ui_window, THEN conjunct1])
  then show ?thesis
    using init_ui_window moved_window_facts by simp
qed

text \<open>
  C9. \<open>update_altmans_summary\<close> changes the value of the summary field and nothing else:
  the settings store, the table of committed rows, the trace of external calls, the date,
  the time and the five sliders are as before.
\<close>

theorem update_altmans_summary_frame:
  "fst (update_altmans_summary w) = Inr ()
   \<and> (\<exists>v. snd (update_altmans_summary w)
          = w\<lparr>altmans_summary := (altmans_summary w)\<lparr>wvalue := v\<rparr>\<rparr>)
   \<and> settings (snd (update_altmans_summary w)) = settings w
   \<and> altman_table (snd (update_altmans_summary w)) = altman_table w
   \<and> calls (snd (update_altmans_summary w)) = calls w
   \<and> altman_date (snd (update_altmans_summary w)) = altman_date w
   \<and> altman_time (snd (update_altmans_summary w)) = altman_time w
   \<and> slider (snd (update_altmans_summary w)) = slider w"
  by (simp add: update_altmans_summary_eq) blast

theorem update_altmans_summary_frame_witness:
  "snd (update_altmans_summary example_values)
     = example_values\<lparr>altmans_summary := (altmans_summary example_values)\<lparr>wvalue := 9\<rparr>\<rparr>
   \<and> slider_values (snd (update_altmans_summary example_values)) = [0, 2, 0, 3, 4]"
proof -
  have "wvalue (altmans_summary (snd (update_altmans_summary example_values))) = 9"
    using example_values_sliders example_values_summary
    by (simp add: update_altmans_summary_eq zero_filtered_sum_def qBound_def
        summary_holds_sums_def)
  moreover obtain v where "snd (update_altmans_summary example_values)
      = example_values\<lparr>altmans_summary := (altmans_summary example_values)\<lparr>wvalue := v\<rparr>\<rparr>"
    using update_altmans_summary_frame [of example_values] by blast
  ultimately show ?thesis
    using example_values_sliders by (simp add: slider_values_def)
qed

text \<open>
  C10. In \<open>save_state\<close> the write of \<open>geometry\<close> and the write of \<open>windowState\<close> have a
  handler each: whichever of them fails, \<open>save_state\<close> returns normally and each of the two
  writes is attempted exactly once, in this order; a write that does not fail is stored
  even when the other one failed.
\<close>

theorem save_state_independent_handlers:
  "fst (save_state w) = Inr ()
   \<and> calls_made save_state w = [Settings_setValue ''geometry'', Settings_setValue ''windowState'']
   \<and> (faults w (length (calls w)) \<and> \<not> faults w (Suc (length (calls w)))
        \<longrightarrow> settings (snd (save_state w))
            = (settings w)(''windowState'' \<mapsto> QBytes (State_blob (frame_state w))))
   \<and> (\<not> faults w (length (calls w)) \<and> faults w (Suc (length (calls w)))
        \<longrightarrow> settings (snd (save_state w))
            = (settings w)(''geometry'' \<mapsto> QBytes (Geometry_blob (win_size w))))"
  by (simp add: save_state_eq calls_made_def Let_def)

theorem save_state_independent_handlers_witness:
  "faults geometry_write_fails (length (calls geometry_write_fails))
   \<and> \<not> faults geometry_write_fails (Suc (length (calls geometry_write_fails)))
   \<and> fst (save_state geometry_write_fails) = Inr ()
   \<and> calls_made save_state geometry_write_fails
       = [Settings_setValue ''geometry'', Settings_setValue ''windowState'']
   \<and> settings (snd (save_state geometry_write_fails))
       = [''windowState'' \<mapsto> QBytes (State_blob [])]"
  using save_state_independent_handlers [of geometry_write_fails]
  by (simp add: geometry_write_fails_def ui_window_def)

end
